theory Spec2Isabelle
  imports Main "HOL-Library.Word"
begin

unbundle bit_operations_syntax

section \<open>Data model of SnakeProto.ino\<close>

text \<open>
  All game variables of the sketch are \<open>uint8_t\<close>; they are 8-bit words here.  C promotes
  them to \<open>int\<close> inside expressions and truncates on assignment.  Truncation commutes with
  \<open>+\<close>, \<open>-\<close>, \<open>|\<close>, \<open>&\<close>, \<open>~\<close> and \<open><<\<close>, so those are written on words directly; the
  places where the promoted value matters (comparisons, \<open>%\<close>, the \<open>&\<close> of
  \<open>check_bitmap\<close>) are computed on \<open>int\<close>/\<open>nat\<close>.
\<close>

type_synonym u8 = "8 word"

text \<open>
  Undefined behaviour of the C code is a value of the model: an array access outside
  the declared bounds, and \<open>%\<close> by zero.
\<close>

datatype fault = OutOfBounds | DivByZero

definition SCREEN_WIDTH :: nat where "SCREEN_WIDTH = 8"
definition SCREEN_HEIGHT :: nat where "SCREEN_HEIGHT = 8"

definition UPPER_BITS :: "u8 \<Rightarrow> u8" where
  "UPPER_BITS x = drop_bit 4 x"

definition LOWER_BITS :: "u8 \<Rightarrow> u8" where
  "LOWER_BITS x = x AND 0x0F"

definition TO_COORDINATES :: "u8 \<Rightarrow> u8 \<Rightarrow> u8" where
  "TO_COORDINATES x y = y OR push_bit 4 x"

definition SNAKE_LEN :: nat where "SNAKE_LEN = 64"

definition SNAKE_NEXT :: "u8 \<Rightarrow> u8" where
  "SNAKE_NEXT x = of_nat ((unat x + 1) mod SNAKE_LEN)"

definition MAIN_MENU :: u8 where "MAIN_MENU = 1"
definition PLAYING :: u8 where "PLAYING = 2"
definition GAME_OVER_TRANS :: u8 where "GAME_OVER_TRANS = 3"
definition GAME_OVER_MENU :: u8 where "GAME_OVER_MENU = 4"
definition ENTERING_HISCORE :: u8 where "ENTERING_HISCORE = 5"
definition VIEWING_HISCORE :: u8 where "VIEWING_HISCORE = 6"
definition SETUP_GAME :: u8 where "SETUP_GAME = 7"

definition UP :: u8 where "UP = 1"
definition DOWN :: u8 where "DOWN = 2"
definition RIGHT :: u8 where "RIGHT = 10"
definition LEFT :: u8 where "LEFT = 11"

section \<open>Bitmap helpers\<close>

text \<open>
  \<open>game_bitmap\<close> is \<open>uint8_t[8]\<close>: a list of eight rows.  \<open>bitmap_row\<close> is the read
  \<open>game_bitmap[i]\<close>, \<open>bitmap_store\<close> the write; both are outside the array for an index
  past its length.
\<close>

definition bitmap_row :: "u8 list \<Rightarrow> nat \<Rightarrow> fault + u8" where
  "bitmap_row g i = (if i < length g then Inr (g ! i) else Inl OutOfBounds)"

definition bitmap_store :: "u8 list \<Rightarrow> nat \<Rightarrow> u8 \<Rightarrow> fault + u8 list" where
  "bitmap_store g i v = (if i < length g then Inr (g[i := v]) else Inl OutOfBounds)"

text \<open>
  \<open>return !!game_bitmap[LOWER_BITS(c)] & (1 << UPPER_BITS(c));\<close>
  The operator \<open>!\<close> binds before \<open>&\<close>: the row is first reduced to 0 or 1, and that is
  and-ed with the \<open>int\<close> \<open>1 << x\<close>; the result is truncated to the \<open>uint8_t\<close> returned.
\<close>

definition check_bitmap :: "u8 list \<Rightarrow> u8 \<Rightarrow> fault + u8" where
  "check_bitmap g coordinates =
     (case bitmap_row g (unat (LOWER_BITS coordinates)) of
        Inl e \<Rightarrow> Inl e
      | Inr row \<Rightarrow>
          Inr (word_of_int
                 ((of_bool (row \<noteq> 0) :: int) AND push_bit (unat (UPPER_BITS coordinates)) 1)))"

text \<open>\<open>game_bitmap[LOWER_BITS(c)] |= (1 << UPPER_BITS(c));\<close>\<close>

definition set_bitmap_one :: "u8 list \<Rightarrow> u8 \<Rightarrow> fault + u8 list" where
  "set_bitmap_one g coordinates =
     (case bitmap_row g (unat (LOWER_BITS coordinates)) of
        Inl e \<Rightarrow> Inl e
      | Inr row \<Rightarrow>
          bitmap_store g (unat (LOWER_BITS coordinates))
            (row OR push_bit (unat (UPPER_BITS coordinates)) 1))"

text \<open>\<open>game_bitmap[LOWER_BITS(c)] &= ~(1 << UPPER_BITS(c));\<close>\<close>

definition set_bitmap_zero :: "u8 list \<Rightarrow> u8 \<Rightarrow> fault + u8 list" where
  "set_bitmap_zero g coordinates =
     (case bitmap_row g (unat (LOWER_BITS coordinates)) of
        Inl e \<Rightarrow> Inl e
      | Inr row \<Rightarrow>
          bitmap_store g (unat (LOWER_BITS coordinates))
            (row AND NOT (push_bit (unat (UPPER_BITS coordinates)) 1)))"

section \<open>Apple placement\<close>

text \<open>
  C's \<open>%\<close> on \<open>int\<close>: the quotient truncates towards zero, so the remainder has the sign
  of the dividend; a zero divisor is undefined.
\<close>

definition c_rem :: "int \<Rightarrow> int \<Rightarrow> fault + int" where
  "c_rem a b = (if b = 0 then Inl DivByZero else Inr (sgn a * (\<bar>a\<bar> mod \<bar>b\<bar>)))"

text \<open>
  The two nested \<open>for\<close> loops of \<open>place_apple\<close>, from the position \<open>(x, y)\<close> on, with the
  current countdown \<open>r\<close>.  Both bounds are \<open>\<le>\<close>, as in the source.  The result is
  \<open>Some c\<close> when \<open>*apple_coordinates = c\<close> was executed and \<open>None\<close> when the loops ran to
  their end without a write.  The counters never pass 9, so they do not wrap in
  \<open>uint8_t\<close>.  The \<open>&&\<close> short-circuits: \<open>check_bitmap\<close> is not called when \<open>r\<close> is 0.
\<close>

function place_apple_scan :: "u8 list \<Rightarrow> u8 \<Rightarrow> nat \<Rightarrow> nat \<Rightarrow> fault + u8 option" where
  "place_apple_scan g r y x =
     (if y \<le> SCREEN_HEIGHT then
        if x \<le> SCREEN_WIDTH then
          (case (if r \<noteq> 0 then check_bitmap g (TO_COORDINATES (of_nat x) (of_nat y))
                 else Inr 1) of
             Inl e \<Rightarrow> Inl e
           | Inr b \<Rightarrow>
               let r' = (if r \<noteq> 0 \<and> b = 0 then r - 1 else r) in
               if r' = 0 then Inr (Some (TO_COORDINATES (of_nat x) (of_nat y)))
               else place_apple_scan g r' y (x + 1))
        else place_apple_scan g r (y + 1) 0
      else Inr None)"
  by pat_completeness auto
termination
  by (relation "measures [\<lambda>(g, r, y, x). Suc SCREEN_HEIGHT - y, \<lambda>(g, r, y, x). Suc SCREEN_WIDTH - x]")
     (auto simp: SCREEN_HEIGHT_def SCREEN_WIDTH_def)

declare place_apple_scan.simps [simp del]

text \<open>
  \<open>place_apple g apple current_score rnd\<close>: \<open>g\<close> is the global bitmap, \<open>apple\<close> the
  content of \<open>*apple_coordinates\<close> at the call, \<open>rnd\<close> the value \<open>rand()\<close> returns.
  The result is the content of \<open>*apple_coordinates\<close> after the call.
\<close>

definition place_apple :: "u8 list \<Rightarrow> u8 \<Rightarrow> u8 \<Rightarrow> int \<Rightarrow> fault + u8" where
  "place_apple g apple current_score rnd =
     (case c_rem rnd (((int SCREEN_HEIGHT * int SCREEN_WIDTH) - 1 - uint current_score) + 1) of
        Inl e \<Rightarrow> Inl e
      | Inr m \<Rightarrow>
          (case place_apple_scan g (word_of_int m) 0 0 of
             Inl e \<Rightarrow> Inl e
           | Inr None \<Rightarrow> Inr apple
           | Inr (Some c) \<Rightarrow> Inr c))"

section \<open>Head movement\<close>

text \<open>
  \<open>place_new_head\<close>.  The statement \<open>x == 0;\<close> in the branch \<open>x == SCREEN_WIDTH\<close> is a
  comparison whose value is discarded: \<open>x\<close> keeps its value there.  The \<open>y\<close> branch
  assigns.
\<close>

definition place_new_head :: "u8 \<Rightarrow> u8 \<Rightarrow> u8" where
  "place_new_head old_head dir =
     (let x0 = UPPER_BITS old_head + of_bool (dir = RIGHT) - of_bool (dir = LEFT);
          x = (if unat x0 > SCREEN_WIDTH then of_nat (SCREEN_WIDTH - 1)
               else if unat x0 = SCREEN_WIDTH then x0
               else x0);
          y0 = LOWER_BITS old_head + of_bool (dir = UP) - of_bool (dir = DOWN);
          y = (if unat y0 > SCREEN_HEIGHT then of_nat (SCREEN_HEIGHT - 1)
               else if unat y0 = SCREEN_HEIGHT then 0
               else y0)
      in TO_COORDINATES x y)"

section \<open>The game task\<close>

text \<open>
  The variables of \<open>GameLogicTask\<close> together with the global \<open>game_bitmap\<close>.
\<close>

record game =
  state :: u8
  game_bitmap :: "u8 list"
  snake_buf :: "u8 list"
  head_idx :: u8
  tail_idx :: u8
  current_head :: u8
  apple :: u8
  current_score :: u8
  got_apple :: bool
  direction :: u8
  body_direction :: u8
  new_direction :: u8

text \<open>
  The state at the first pass through the \<open>while\<close> loop.  The declaration
  \<open>uint8_t head_idx, tail_idx = 0;\<close> initialises \<open>tail_idx\<close> only; \<open>head_idx\<close>,
  \<open>snake_buf\<close> and the other locals without an initialiser hold whatever the stack
  holds, and are parameters here (the record \<open>junk\<close> supplies them).  The global
  \<open>game_bitmap\<close> is zero-initialised.
\<close>

definition task_entry :: "game \<Rightarrow> game" where
  "task_entry junk =
     junk\<lparr>state := SETUP_GAME, game_bitmap := replicate 8 0, tail_idx := 0,
          got_apple := False\<rparr>"

text \<open>\<open>snake_buf[i]\<close> as a read and as a write, for the array \<open>uint8_t snake_buf[64]\<close>.\<close>

definition buf_read :: "u8 list \<Rightarrow> u8 \<Rightarrow> fault + u8" where
  "buf_read buf i = (if unat i < length buf then Inr (buf ! unat i) else Inl OutOfBounds)"

definition buf_write :: "u8 list \<Rightarrow> u8 \<Rightarrow> u8 \<Rightarrow> fault + u8 list" where
  "buf_write buf i v = (if unat i < length buf then Inr (buf[unat i := v]) else Inl OutOfBounds)"

text \<open>Sequencing of steps that may be undefined.\<close>

definition bind_fault :: "fault + 'a \<Rightarrow> ('a \<Rightarrow> fault + 'b) \<Rightarrow> fault + 'b" where
  "bind_fault m f = (case m of Inl e \<Rightarrow> Inl e | Inr v \<Rightarrow> f v)"

text \<open>The loop \<open>for (int i = 0; i < SCREEN_WIDTH; i++) game_bitmap[i] = 0;\<close>.\<close>

fun clear_rows :: "u8 list \<Rightarrow> nat \<Rightarrow> nat \<Rightarrow> fault + u8 list" where
  "clear_rows g i 0 = Inr g"
| "clear_rows g i (Suc n) = bind_fault (bitmap_store g i 0) (\<lambda>g'. clear_rows g' (Suc i) n)"

text \<open>The branch \<open>state == SETUP_GAME\<close>.\<close>

definition setup_game :: "game \<Rightarrow> fault + game" where
  "setup_game s =
     bind_fault (clear_rows (game_bitmap s) 0 SCREEN_WIDTH) (\<lambda>g0.
     bind_fault (buf_write (snake_buf s) 0 (TO_COORDINATES 4 1)) (\<lambda>buf.
     bind_fault (buf_read buf 0) (\<lambda>c0.
     bind_fault (set_bitmap_one g0 c0) (\<lambda>g1.
     bind_fault (buf_read buf (head_idx s)) (\<lambda>h.
     let hd' = place_new_head h UP in
     bind_fault (set_bitmap_one g1 hd') (\<lambda>g2.
     let ap = TO_COORDINATES 4 7 in
     bind_fault (set_bitmap_one g2 ap) (\<lambda>g3.
     Inr (s\<lparr>game_bitmap := g3, snake_buf := buf, direction := UP, body_direction := UP,
            current_head := hd', apple := ap, current_score := 2,
            state := PLAYING\<rparr>))))))))"

text \<open>
  The test of the reversal rule.  The sum of two \<open>uint8_t\<close> is an \<open>int\<close> and does not wrap.
\<close>

definition valid_turn :: "u8 \<Rightarrow> u8 \<Rightarrow> bool" where
  "valid_turn body_dir new_dir \<longleftrightarrow>
     unat body_dir + unat new_dir \<noteq> unat UP + unat DOWN \<and>
     unat body_dir + unat new_dir \<noteq> unat LEFT + unat RIGHT"

text \<open>
  The body of \<open>if (xQueueReceive(direction_queue, &new_direction, 0))\<close>, for the received
  value \<open>nd\<close>.
\<close>

definition direction_event :: "game \<Rightarrow> u8 \<Rightarrow> fault + game" where
  "direction_event s nd =
     (let s1 = s\<lparr>new_direction := nd\<rparr>;
          s2 = (if valid_turn (body_direction s1) (new_direction s1)
                then s1\<lparr>direction := new_direction s1\<rparr> else s1)
      in
      bind_fault (set_bitmap_zero (game_bitmap s2) (current_head s2)) (\<lambda>g1.
      bind_fault (buf_read (snake_buf s2) (head_idx s2)) (\<lambda>h.
      let hd' = place_new_head h (direction s2) in
      bind_fault (set_bitmap_one g1 hd') (\<lambda>g2.
      Inr (s2\<lparr>game_bitmap := g2, current_head := hd'\<rparr>)))))"

text \<open>
  The block \<open>if (current_head == apple) { ... }\<close>.  Its inner condition is the literal
  \<open>true\<close>, so the branch that sets \<open>GAME_OVER_TRANS\<close> for a collision with the snake
  itself is never taken.
\<close>

definition apple_check :: "game \<Rightarrow> game" where
  "apple_check s =
     (if current_head s = apple s then
        (let s1 = s\<lparr>apple := 0xFF\<rparr> in
         if True then
           (let s2 = s1\<lparr>got_apple := True, current_score := current_score s1 + 1\<rparr> in
            if unat (current_score s2) \<ge> 64 then s2\<lparr>state := GAME_OVER_TRANS\<rparr> else s2)
         else s1\<lparr>state := GAME_OVER_TRANS\<rparr>)
      else s)"

text \<open>
  The body of \<open>if (ulTaskNotifyTake(pdTRUE, 0))\<close>; \<open>rnd\<close> is the value of \<open>rand()\<close> in
  case \<open>place_apple\<close> is called.
\<close>

definition tick_event :: "game \<Rightarrow> int \<Rightarrow> fault + game" where
  "tick_event s rnd =
     (let hi = SNAKE_NEXT (head_idx s) in
      bind_fault (buf_write (snake_buf s) hi (current_head s)) (\<lambda>buf.
      bind_fault (buf_read buf hi) (\<lambda>h.
      let hd' = place_new_head h (direction s) in
      bind_fault (set_bitmap_one (game_bitmap s) hd') (\<lambda>g1.
      let s1 = s\<lparr>head_idx := hi, snake_buf := buf, body_direction := direction s,
                 current_head := hd', game_bitmap := g1\<rparr> in
      if \<not> got_apple s1 then
        bind_fault (buf_read (snake_buf s1) (tail_idx s1)) (\<lambda>t.
        bind_fault (set_bitmap_zero (game_bitmap s1) t) (\<lambda>g2.
        Inr (s1\<lparr>game_bitmap := g2, tail_idx := SNAKE_NEXT (tail_idx s1)\<rparr>)))
      else
        bind_fault (place_apple (game_bitmap s1) (apple s1) (current_score s1) rnd) (\<lambda>ap.
        bind_fault (set_bitmap_one (game_bitmap s1) ap) (\<lambda>g2.
        Inr (s1\<lparr>got_apple := False, apple := ap, game_bitmap := g2\<rparr>)))))))"

text \<open>
  One pass through the \<open>while (1)\<close> loop.  The inputs are what the polls would return:
  \<open>ev\<close> is \<open>Some d\<close> when \<open>xQueueReceive\<close> delivers the direction \<open>d\<close>, \<open>tk\<close> is whether
  \<open>ulTaskNotifyTake\<close> finds a pending notification, \<open>rnd\<close> the next \<open>rand()\<close>.
\<close>

definition GameLogicTask_step :: "game \<Rightarrow> u8 option \<Rightarrow> bool \<Rightarrow> int \<Rightarrow> fault + game" where
  "GameLogicTask_step s ev tk rnd =
     (if state s = MAIN_MENU then Inr s
      else if state s = SETUP_GAME then setup_game s
      else if state s = PLAYING then
        bind_fault (case ev of None \<Rightarrow> Inr s | Some nd \<Rightarrow> direction_event s nd) (\<lambda>s1.
        let s2 = apple_check s1 in
        if tk then tick_event s2 rnd else Inr s2)
      else if state s = GAME_OVER_TRANS then Inr (s\<lparr>state := GAME_OVER_MENU\<rparr>)
      else if state s = GAME_OVER_MENU then Inr s
      else if state s = ENTERING_HISCORE then Inr s
      else if state s = VIEWING_HISCORE then Inr s
      else Inr s)"

text \<open>A run: the passes of the loop for a list of inputs, stopping at undefined behaviour.\<close>

fun GameLogicTask_run :: "game \<Rightarrow> (u8 option \<times> bool \<times> int) list \<Rightarrow> fault + game" where
  "GameLogicTask_run s [] = Inr s"
| "GameLogicTask_run s ((ev, tk, rnd) # ins) =
     bind_fault (GameLogicTask_step s ev tk rnd) (\<lambda>s'. GameLogicTask_run s' ins)"

section \<open>Measures and sample states\<close>

text \<open>
  The number of buffer cells from \<open>tail_idx\<close> to \<open>head_idx\<close> in circular order.  The
  code never computes it; it is the measure in which growth of the snake is stated.
\<close>

definition snake_length :: "game \<Rightarrow> int" where
  "snake_length s = (uint (head_idx s) - uint (tail_idx s)) mod 64 + 1"

text \<open>
  Two contents of the stack at task entry: every uninitialised local zero, and the same
  with \<open>head_idx\<close> holding 1.
\<close>

definition zero_locals :: game where
  "zero_locals =
     \<lparr>state = 0, game_bitmap = replicate 8 0, snake_buf = replicate 64 0, head_idx = 0,
      tail_idx = 0, current_head = 0, apple = 0, current_score = 0, got_apple = False,
      direction = 0, body_direction = 0, new_direction = 0\<rparr>"

definition stale_locals :: game where
  "stale_locals = zero_locals\<lparr>head_idx := 1\<rparr>"

text \<open>The state after the setup pass from \<open>zero_locals\<close>, and after five more ticks.\<close>

definition playing_start :: game where
  "playing_start =
     \<lparr>state = PLAYING, game_bitmap = [0, 0x10, 0x10, 0, 0, 0, 0, 0x10],
      snake_buf = 0x41 # replicate 63 0, head_idx = 0, tail_idx = 0, current_head = 0x42,
      apple = 0x47, current_score = 2, got_apple = False, direction = UP,
      body_direction = UP, new_direction = 0\<rparr>"

definition five_ticks :: "(u8 option \<times> bool \<times> int) list" where
  "five_ticks =
     [(None, True, 0), (None, True, 0), (None, True, 0), (None, True, 0), (None, True, 0)]"

definition apple_ahead :: game where
  "apple_ahead =
     \<lparr>state = PLAYING, game_bitmap = [0, 0, 0, 0, 0, 0, 0x10, 0x10],
      snake_buf = [0x41, 0x42, 0x43, 0x44, 0x45, 0x46] @ replicate 58 0, head_idx = 5,
      tail_idx = 5, current_head = 0x47, apple = 0x47, current_score = 2, got_apple = False,
      direction = UP, body_direction = UP, new_direction = 0\<rparr>"

text \<open>The state after the setup pass from \<open>stale_locals\<close>.\<close>

definition stale_start :: game where
  "stale_start =
     \<lparr>state = PLAYING, game_bitmap = [0, 0x11, 0, 0, 0, 0, 0, 0x10],
      snake_buf = 0x41 # replicate 63 0, head_idx = 1, tail_idx = 0, current_head = 0x01,
      apple = 0x47, current_score = 2, got_apple = False, direction = UP,
      body_direction = UP, new_direction = 0\<rparr>"

text \<open>
  A run in which the player turns \<open>LEFT\<close> while the provisional head lies on the apple:
  the setup pass, five ticks, then the direction event.
\<close>

definition lost_apple_inputs :: "(u8 option \<times> bool \<times> int) list" where
  "lost_apple_inputs =
     [(None, False, 0),
      (None, True, 0), (None, True, 0), (None, True, 0), (None, True, 0), (None, True, 0),
      (Some LEFT, False, 0)]"

definition lost_apple_state :: game where
  "lost_apple_state =
     \<lparr>state = PLAYING, game_bitmap = [0, 0, 0, 0, 0, 0, 0x18, 0],
      snake_buf = [0x41, 0x42, 0x43, 0x44, 0x45, 0x46] @ replicate 58 0, head_idx = 5,
      tail_idx = 5, current_head = 0x36, apple = 0x47, current_score = 2, got_apple = False,
      direction = LEFT, body_direction = UP, new_direction = LEFT\<rparr>"

text \<open>
  A run in which the snake eats four apples while moving up column 4 (the values of
  \<open>rand()\<close> put each new apple two cells ahead, the last one at \<open>(0, 0)\<close>), then turns
  \<open>LEFT\<close>, \<open>DOWN\<close> and \<open>RIGHT\<close> into its own body.
\<close>

definition collision_inputs :: "(u8 option \<times> bool \<times> int) list" where
  "collision_inputs =
     [(None, False, 0),
      (None, True, 0), (None, True, 0), (None, True, 0), (None, True, 0), (None, True, 0),
      (None, True, 13), (None, True, 0), (None, True, 29), (None, True, 0),
      (None, True, 45), (None, True, 0), (None, True, 1),
      (Some LEFT, True, 0), (Some DOWN, True, 0), (Some RIGHT, False, 0)]"

definition collision_state :: game where
  "collision_state =
     \<lparr>state = PLAYING, game_bitmap = [0x01, 0, 0, 0x10, 0x18, 0x18, 0, 0],
      snake_buf = [0x41, 0x42, 0x43, 0x44, 0x45, 0x46, 0x47, 0x40, 0x41, 0x42, 0x43, 0x44,
                   0x45, 0x35, 0x34] @ replicate 49 0,
      head_idx = 14, tail_idx = 10, current_head = 0x44, apple = 0x00, current_score = 6,
      got_apple = False, direction = RIGHT, body_direction = DOWN, new_direction = RIGHT\<rparr>"

definition collision_next :: game where
  "collision_next =
     \<lparr>state = PLAYING, game_bitmap = [0x01, 0, 0, 0, 0x38, 0x18, 0, 0],
      snake_buf = [0x41, 0x42, 0x43, 0x44, 0x45, 0x46, 0x47, 0x40, 0x41, 0x42, 0x43, 0x44,
                   0x45, 0x35, 0x34, 0x44] @ replicate 48 0,
      head_idx = 15, tail_idx = 11, current_head = 0x54, apple = 0x00, current_score = 6,
      got_apple = False, direction = RIGHT, body_direction = RIGHT, new_direction = RIGHT\<rparr>"

text \<open>
  A run to the last apple.  After the first apple the snake turns \<open>LEFT\<close> into row 0
  and circles in it; every value of \<open>rand()\<close> puts the new apple on the new provisional
  head, so every tick eats one.  At the end the score is 63 and the apple lies on the
  provisional head \<open>(0, 0)\<close>.
\<close>

definition last_apple_inputs :: "(u8 option \<times> bool \<times> int) list" where
  "last_apple_inputs =
     [(None, False, 0),
      (None, True, 0), (None, True, 0), (None, True, 0), (None, True, 0), (None, True, 0),
      (None, True, 4), (None, True, 3), (Some LEFT, True, 2)] @
     map (\<lambda>n. (None, True, (63 - int n) mod 8)) [6..<64]"

definition last_apple_state :: game where
  "last_apple_state =
     \<lparr>state = PLAYING, game_bitmap = [0xFF, 0, 0, 0, 0, 0, 0x10, 0x10],
      snake_buf =
        [0x30, 0x20, 0x10, 0x44, 0x45, 0x46, 0x47, 0x40] @
        concat (replicate 7 [0x30, 0x20, 0x10, 0x00, 0x70, 0x60, 0x50, 0x40]),
      head_idx = 2, tail_idx = 5, current_head = 0x00, apple = 0x00, current_score = 63,
      got_apple = False, direction = LEFT, body_direction = LEFT, new_direction = LEFT\<rparr>"

section \<open>Facts about the packed coordinates\<close>

lemma low_nibble_keep: "(y::u8) < 16 \<Longrightarrow> y AND 15 = y"
  using less_mask_eq [of y 4] by (simp add: mask_eq_exp_minus_1)

lemma push4_and_15: "push_bit 4 (x::u8) AND 15 = 0"
proof -
  have "push_bit 4 x AND mask 4 = 0"
    by (rule bit_word_eqI) (auto simp: bit_simps)
  then show ?thesis by (simp add: mask_eq_exp_minus_1)
qed

lemma LOWER_BITS_TO_COORDINATES:
  "unat y < 16 \<Longrightarrow> LOWER_BITS (TO_COORDINATES x y) = y"
  by (simp add: LOWER_BITS_def TO_COORDINATES_def word_ao_dist low_nibble_keep push4_and_15
      word_less_nat_alt)

lemma drop4_or_push4:
  "unat x < 16 \<Longrightarrow> unat y < 16 \<Longrightarrow> drop_bit 4 (y OR push_bit 4 x) = (x::u8)"
proof -
  assume "unat x < 16" "unat y < 16"
  then have x: "x AND mask 4 = x" and y: "y AND mask 4 = y"
    by (simp_all add: less_mask_eq word_less_nat_alt)
  have "drop_bit 4 ((y AND mask 4) OR push_bit 4 (x AND mask 4)) = x AND mask 4"
    by (rule bit_word_eqI) (auto simp: bit_simps)
  then show ?thesis by (simp only: x y)
qed

lemma UPPER_BITS_TO_COORDINATES:
  "unat x < 16 \<Longrightarrow> unat y < 16 \<Longrightarrow> UPPER_BITS (TO_COORDINATES x y) = x"
  unfolding UPPER_BITS_def TO_COORDINATES_def by (rule drop4_or_push4)

text \<open>The row of a new head is always a row of the screen.\<close>

lemma place_new_head_row: "unat (LOWER_BITS (place_new_head h d)) < 8"
proof -
  define y0 where "y0 = LOWER_BITS h + of_bool (d = UP) - of_bool (d = DOWN)"
  define y where "y = (if unat y0 > SCREEN_HEIGHT then of_nat (SCREEN_HEIGHT - 1)
               else if unat y0 = SCREEN_HEIGHT then 0 else y0)"
  have "unat y < 8"
    by (simp add: y_def SCREEN_HEIGHT_def)
  moreover have "\<exists>x. place_new_head h d = TO_COORDINATES x y"
    unfolding place_new_head_def Let_def y_def y0_def by (rule exI) (rule refl)
  ultimately show ?thesis
    by (auto simp add: LOWER_BITS_TO_COORDINATES)
qed

section \<open>Facts about the bitmap helpers\<close>

lemma of_bool_and_bit_int:
  "(of_bool b :: int) AND 2 ^ n = of_bool (b \<and> n = 0)"
  by (cases b; cases n) (simp_all add: and_one_eq one_and_eq)

lemma check_bitmap_in_range:
  "unat (LOWER_BITS c) < length g \<Longrightarrow>
   check_bitmap g c = Inr (of_bool (g ! unat (LOWER_BITS c) \<noteq> 0 \<and> UPPER_BITS c = 0))"
  by (simp add: check_bitmap_def bitmap_row_def of_bool_and_bit_int unat_eq_0)

lemma set_bitmap_one_in_range:
  "unat (LOWER_BITS c) < length g \<Longrightarrow>
   set_bitmap_one g c =
     Inr (g[unat (LOWER_BITS c) := g ! unat (LOWER_BITS c) OR push_bit (unat (UPPER_BITS c)) 1])"
  by (simp add: set_bitmap_one_def bitmap_row_def bitmap_store_def)

lemma set_bitmap_zero_in_range:
  "unat (LOWER_BITS c) < length g \<Longrightarrow>
   set_bitmap_zero g c =
     Inr (g[unat (LOWER_BITS c) :=
              g ! unat (LOWER_BITS c) AND NOT (push_bit (unat (UPPER_BITS c)) 1)])"
  by (simp add: set_bitmap_zero_def bitmap_row_def bitmap_store_def)

text \<open>
  Claim C9.  For a coordinate whose row index addresses one of the eight rows,
  \<open>check_bitmap\<close> returns a nonzero value exactly when the x-component (upper four bits)
  is zero and the addressed row is nonzero; for every nonzero x-component it returns 0,
  whatever bits are set in the grid.
\<close>

theorem check_bitmap_value:
  assumes "length g = 8" and "unat (LOWER_BITS c) < 8"
  shows "\<exists>v. check_bitmap g c = Inr v \<and>
             (v \<noteq> 0 \<longleftrightarrow> UPPER_BITS c = 0 \<and> g ! unat (LOWER_BITS c) \<noteq> 0) \<and>
             (UPPER_BITS c \<noteq> 0 \<longrightarrow> v = 0)"
  using assms by (auto simp add: check_bitmap_in_range)

theorem check_bitmap_value_witness:
  "length [0xFF, 0, 0, 0, 0, 0, 0, 0 :: u8] = 8 \<and> unat (LOWER_BITS 0x10) < 8 \<and>
   UPPER_BITS 0x10 \<noteq> 0 \<and> check_bitmap [0xFF, 0, 0, 0, 0, 0, 0, 0] 0x10 = Inr 0"
  using check_bitmap_value [of "[0xFF, 0, 0, 0, 0, 0, 0, 0]" "0x10"]
  by (auto simp add: LOWER_BITS_def UPPER_BITS_def)

text \<open>
  Claim C10.  For a coordinate whose y-component is less than 8, \<open>set_bitmap_one\<close> and
  \<open>set_bitmap_zero\<close> return a grid of eight rows that differs from the given one at
  most in the row indexed by the y-component, and applying either a second time
  changes nothing.
\<close>

theorem set_bitmap_frame:
  assumes "length g = 8" and "unat (LOWER_BITS c) < 8"
  shows "\<exists>g1 g0. set_bitmap_one g c = Inr g1 \<and> set_bitmap_zero g c = Inr g0 \<and>
           length g1 = 8 \<and> length g0 = 8 \<and>
           (\<forall>i. i \<noteq> unat (LOWER_BITS c) \<longrightarrow> g1 ! i = g ! i \<and> g0 ! i = g ! i) \<and>
           set_bitmap_one g1 c = Inr g1 \<and> set_bitmap_zero g0 c = Inr g0"
  using assms by (simp add: set_bitmap_one_in_range set_bitmap_zero_in_range)

theorem set_bitmap_frame_witness:
  "length [0, 0x10, 0, 0, 0, 0, 0, 0x10 :: u8] = 8 \<and> unat (LOWER_BITS 0x42) < 8 \<and>
   set_bitmap_one [0, 0x10, 0, 0, 0, 0, 0, 0x10] 0x42 = Inr [0, 0x10, 0x10, 0, 0, 0, 0, 0x10] \<and>
   set_bitmap_zero [0, 0x10, 0, 0, 0, 0, 0, 0x10] 0x42 = Inr [0, 0x10, 0, 0, 0, 0, 0, 0x10]"
  using set_bitmap_frame [of "[0, 0x10, 0, 0, 0, 0, 0, 0x10]" "0x42"]
  by (auto simp add: LOWER_BITS_def UPPER_BITS_def set_bitmap_one_in_range
      set_bitmap_zero_in_range)

section \<open>Head movement at the right edge\<close>

text \<open>
  Claim C1 says that \<open>place_new_head\<close> wraps in every direction, so that a head at
  \<open>x = 7\<close> moving \<open>RIGHT\<close> gets \<open>x = 0\<close> and both components of the result stay below 8.
  In the code the branch for \<open>x == SCREEN_WIDTH\<close> compares instead of assigning: from
  the cell \<open>(7, 0)\<close> moving \<open>RIGHT\<close> the result has the x-component 8.
\<close>

theorem place_new_head_right_edge:
  "place_new_head (TO_COORDINATES 7 0) RIGHT = TO_COORDINATES 8 0 \<and>
   UPPER_BITS (place_new_head (TO_COORDINATES 7 0) RIGHT) = 8 \<and>
   \<not> unat (UPPER_BITS (place_new_head (TO_COORDINATES 7 0) RIGHT)) < 8"
  by (simp add: place_new_head_def UPPER_BITS_def LOWER_BITS_def TO_COORDINATES_def
      RIGHT_def LEFT_def UP_def DOWN_def SCREEN_WIDTH_def SCREEN_HEIGHT_def)

text \<open>The other three edges do wrap.\<close>

lemma place_new_head_other_edges:
  "place_new_head (TO_COORDINATES 0 7) UP = TO_COORDINATES 0 0 \<and>
   place_new_head (TO_COORDINATES 0 0) DOWN = TO_COORDINATES 0 7 \<and>
   place_new_head (TO_COORDINATES 0 0) LEFT = TO_COORDINATES 7 0"
  by code_simp

section \<open>Apple placement on concrete grids\<close>

text \<open>
  Claim C2 says that the cell \<open>place_apple\<close> writes was unoccupied before the call.
  On the grid the game has after the first apple was eaten (body \<open>(4, 6)\<close>, \<open>(4, 7)\<close>,
  provisional head \<open>(4, 0)\<close>), with score 3 and \<open>rand()\<close> returning 4, the cell written
  is \<open>(4, 0)\<close>, whose bit is set.
\<close>

theorem place_apple_occupied_cell:
  "place_apple [0x10, 0, 0, 0, 0, 0, 0x10, 0x10] 0xFF 3 4 = Inr (TO_COORDINATES 4 0) \<and>
   bit ([0x10, 0, 0, 0, 0, 0, 0x10, 0x10 :: u8] ! 0) 4"
  by code_simp

text \<open>
  That call is the one the game makes: from \<open>apple_ahead\<close>, a pass with a tick and
  \<open>rand()\<close> returning 4 ends with the new apple on the provisional head.
\<close>

lemma apple_placed_on_provisional_head:
  "(case GameLogicTask_run apple_ahead [(None, True, 4)] of
      Inl e \<Rightarrow> False
    | Inr s \<Rightarrow> apple s = TO_COORDINATES 4 0 \<and> current_head s = TO_COORDINATES 4 0 \<and>
               current_score s = 3)"
  by code_simp

text \<open>
  Claim C7 says that \<open>place_apple\<close> leaves \<open>*apple_coordinates\<close> unchanged when every bit
  of the grid is set.  On the full grid, with the apple absent (\<open>0xFF\<close>) and score 63, the
  call writes the cell \<open>(0, 0)\<close>.
\<close>

theorem place_apple_full_grid:
  "place_apple [0xFF, 0xFF, 0xFF, 0xFF, 0xFF, 0xFF, 0xFF, 0xFF] 0xFF 63 0 = Inr 0x00"
  by code_simp

section \<open>Apple placement returns\<close>

text \<open>
  In the scan every cell with \<open>x \<ge> 1\<close> counts as free, because \<open>check_bitmap\<close> returns 0
  for it.  So each row lowers the countdown by at least 8, and a countdown of at most 64
  ends within the rows 0 to 7.
\<close>

lemma check_bitmap_scan_cell:
  assumes "length g = 8" and "y \<le> 7" and "x \<le> 8"
  shows "\<exists>b. check_bitmap g (TO_COORDINATES (of_nat x) (of_nat y)) = Inr b \<and> (1 \<le> x \<longrightarrow> b = 0)"
proof -
  have ux: "unat (of_nat x :: u8) = x" and uy: "unat (of_nat y :: u8) = y"
    using assms by (simp_all add: unat_of_nat)
  have lo: "LOWER_BITS (TO_COORDINATES (of_nat x) (of_nat y)) = of_nat y"
    using assms by (simp add: LOWER_BITS_TO_COORDINATES uy)
  have up: "UPPER_BITS (TO_COORDINATES (of_nat x) (of_nat y)) = of_nat x"
    using assms by (simp add: UPPER_BITS_TO_COORDINATES ux uy)
  have "1 \<le> x \<Longrightarrow> (of_nat x :: u8) \<noteq> 0"
    using ux by (metis not_one_le_zero unat_0)
  then show ?thesis
    using assms by (simp add: check_bitmap_in_range lo up uy)
qed


lemma place_apple_scan_places:
  "length g = 8 \<Longrightarrow> y \<le> 7 \<Longrightarrow> x \<le> 9 \<Longrightarrow> r \<noteq> 0 \<Longrightarrow>
   unat r \<le> 8 * (7 - y) + (9 - max x 1) \<Longrightarrow>
   \<exists>c. place_apple_scan g r y x = Inr (Some c) \<and> unat (LOWER_BITS c) < 8"
proof (induction g r y x rule: place_apple_scan.induct)
  case (1 g r y x)
  from \<open>r \<noteq> 0\<close> have rpos: "0 < unat r"
    by (simp add: unat_gt_0)
  show ?case
  proof (cases "x \<le> 8")
    case False
    with "1.prems" rpos have x9: "x = 9" and y6: "y \<le> 6"
      by auto
    have "\<exists>c. place_apple_scan g r (y + 1) 0 = Inr (Some c) \<and> unat (LOWER_BITS c) < 8"
      using "1.prems" x9 y6
      by (intro "1.IH"(2)) (auto simp: SCREEN_HEIGHT_def SCREEN_WIDTH_def)
    then show ?thesis
      using x9 "1.prems"(2)
      by (subst place_apple_scan.simps) (simp add: SCREEN_HEIGHT_def SCREEN_WIDTH_def)
  next
    case True
    from check_bitmap_scan_cell [OF \<open>length g = 8\<close> \<open>y \<le> 7\<close> True]
    obtain b where b: "check_bitmap g (TO_COORDINATES (of_nat x) (of_nat y)) = Inr b"
      and b0: "1 \<le> x \<longrightarrow> b = 0"
      by blast
    define r' where "r' = (if r \<noteq> 0 \<and> b = 0 then r - 1 else r)"
    have unfold: "place_apple_scan g r y x =
        (if r' = 0 then Inr (Some (TO_COORDINATES (of_nat x) (of_nat y)))
         else place_apple_scan g r' y (x + 1))"
      using True \<open>y \<le> 7\<close> \<open>r \<noteq> 0\<close> b
      by (subst place_apple_scan.simps)
         (simp add: SCREEN_HEIGHT_def SCREEN_WIDTH_def r'_def Let_def)
    show ?thesis
    proof (cases "r' = 0")
      case True
      have "unat (LOWER_BITS (TO_COORDINATES (of_nat x) (of_nat y) :: u8)) < 8"
        using \<open>y \<le> 7\<close> by (simp add: LOWER_BITS_TO_COORDINATES unat_of_nat)
      with True unfold show ?thesis by simp
    next
      case False
      have r'_le: "unat r' \<le> 8 * (7 - y) + (9 - max (x + 1) 1)"
      proof (cases "b = 0")
        case True
        then have "unat r' = unat r - 1"
          using \<open>r \<noteq> 0\<close> rpos by (simp add: r'_def unat_minus_one)
        with "1.prems"(5) rpos show ?thesis by (cases "x = 0") auto
      next
        case False
        with b0 have "x = 0" by auto
        with False "1.prems"(5) show ?thesis by (simp add: r'_def)
      qed
      have "\<exists>c. place_apple_scan g r' y (x + 1) = Inr (Some c) \<and> unat (LOWER_BITS c) < 8"
        using True \<open>y \<le> 7\<close> \<open>r \<noteq> 0\<close> b False r'_le \<open>length g = 8\<close>
        by (intro "1.IH"(1)[of b r'])
           (auto simp: SCREEN_HEIGHT_def SCREEN_WIDTH_def r'_def)
      with False unfold show ?thesis by simp
    qed
  qed
qed


lemma place_apple_scan_zero:
  "place_apple_scan g 0 0 0 = Inr (Some 0)"
  by (subst place_apple_scan.simps) (simp add: TO_COORDINATES_def)

lemma place_apple_returns:
  assumes "length g = 8" and "unat sc < 64" and "0 \<le> rnd"
  shows "\<exists>c. place_apple g a sc rnd = Inr c \<and> unat (LOWER_BITS c) < 8"
proof -
  define m where "m = ((int SCREEN_HEIGHT * int SCREEN_WIDTH) - 1 - uint sc) + 1"
  have "sc < 64"
    using assms(2) by (simp add: word_less_nat_alt)
  then have "uint sc < 64" "0 \<le> uint sc"
    by (simp_all add: word_less_def)
  then have m: "0 < m" "m \<le> 64"
    by (simp_all add: m_def SCREEN_HEIGHT_def SCREEN_WIDTH_def)
  define r :: u8 where "r = word_of_int (rnd mod m)"
  have rem: "c_rem rnd m = Inr (rnd mod m)"
    using m assms(3) by (cases "rnd = 0") (simp_all add: c_rem_def)
  have "rnd mod m < m"
    using m by (intro pos_mod_bound)
  with m have "rnd mod m < 64"
    by linarith
  moreover have "0 \<le> rnd mod m"
    using m by simp
  ultimately have k: "0 \<le> rnd mod m" "rnd mod m < 64"
    by blast+
  then have "take_bit 8 (rnd mod m) = rnd mod m"
    by (simp add: take_bit_int_eq_self)
  then have "uint r = rnd mod m"
    by (simp add: r_def uint_word_of_int_eq)
  with k have ur: "unat r \<le> 63"
    by (simp add: unat_eq_nat_uint)
  have "\<exists>c. place_apple_scan g r 0 0 = Inr (Some c) \<and> unat (LOWER_BITS c) < 8"
  proof (cases "r = 0")
    case True
    then show ?thesis by (simp add: place_apple_scan_zero LOWER_BITS_def)
  next
    case False
    with ur assms(1) show ?thesis
      by (intro place_apple_scan_places) auto
  qed
  then show ?thesis
    using rem by (auto simp add: place_apple_def m_def r_def)
qed

section \<open>The circular buffer indices\<close>

lemma unat_SNAKE_NEXT: "unat (SNAKE_NEXT i) = (unat i + 1) mod 64"
proof -
  have "(unat i + 1) mod 64 < 256"
    by (rule less_trans [of _ 64]) simp_all
  then show ?thesis
    by (simp add: SNAKE_NEXT_def SNAKE_LEN_def unat_of_nat take_bit_nat_eq_self)
qed

lemma uint_SNAKE_NEXT: "uint (SNAKE_NEXT i) = (uint i + 1) mod 64"
proof -
  have "int (unat (SNAKE_NEXT i)) = int ((unat i + 1) mod 64)"
    by (rule arg_cong) (rule unat_SNAKE_NEXT)
  then show ?thesis
    by (simp add: zmod_int add.commute)
qed

lemma ring_next_diff:
  "((a + 1) mod 64 - t) mod 64 = ((a - t) mod 64 + 1) mod (64::int)"
proof -
  have "((a + 1) mod 64 - t) mod 64 = (a + 1 - t) mod 64"
    by (simp add: mod_diff_left_eq)
  also have "a + 1 - t = (a - t) + 1"
    by simp
  also have "((a - t) + 1) mod 64 = ((a - t) mod 64 + 1) mod 64"
    by (simp add: mod_add_left_eq)
  finally show ?thesis .
qed

lemma ring_both_next:
  "((a + 1) mod 64 - (t + 1) mod 64) mod 64 = (a - t) mod (64::int)"
proof -
  have "((a + 1) mod 64 - (t + 1) mod 64) mod 64 = ((a + 1) - (t + 1)) mod 64"
    by (rule mod_diff_eq)
  then show ?thesis by simp
qed

lemma ring_full:
  "(a - (a + 1) mod 64) mod 64 = (63::int)"
proof -
  have "(a - (a + 1) mod 64) mod 64 = (a - (a + 1)) mod 64"
    by (rule mod_diff_right_eq)
  then show ?thesis by simp
qed

lemma unat_SNAKE_NEXT_less: "unat (SNAKE_NEXT i) < 64"
proof -
  have "uint (SNAKE_NEXT i) < 64"
    by (simp add: uint_SNAKE_NEXT)
  then have "SNAKE_NEXT i < 64"
    by (simp add: word_less_def)
  then show ?thesis
    by (simp add: word_less_nat_alt)
qed

lemma tick_grows:
  assumes "length (game_bitmap s) = 8" and "length (snake_buf s) = 64"
    and "got_apple s" and "unat (current_score s) < 64" and "0 \<le> rnd"
  shows "\<exists>s'. tick_event s rnd = Inr s' \<and> head_idx s' = SNAKE_NEXT (head_idx s) \<and>
           tail_idx s' = tail_idx s \<and> current_score s' = current_score s \<and>
           \<not> got_apple s' \<and> state s' = state s"
proof -
  let ?hi = "SNAKE_NEXT (head_idx s)"
  let ?hd = "place_new_head (current_head s) (direction s)"
  have hi: "unat ?hi < 64" by (rule unat_SNAKE_NEXT_less)
  obtain g1 where g1: "set_bitmap_one (game_bitmap s) ?hd = Inr g1" and lg1: "length g1 = 8"
    using assms(1) place_new_head_row [of "current_head s" "direction s"]
    by (simp add: set_bitmap_one_in_range)
  obtain ap where ap: "place_apple g1 (apple s) (current_score s) rnd = Inr ap"
      and rap: "unat (LOWER_BITS ap) < 8"
    using place_apple_returns [OF lg1 assms(4) assms(5)] by blast
  obtain g2 where g2: "set_bitmap_one g1 ap = Inr g2"
    using lg1 rap by (simp add: set_bitmap_one_in_range)
  show ?thesis
    using hi assms(2) assms(3) g1 ap g2
    by (simp add: tick_event_def Let_def bind_fault_def buf_write_def buf_read_def)
qed

lemma tick_moves_tail:
  assumes "length (game_bitmap s) = 8" and "length (snake_buf s) = 64"
    and "\<not> got_apple s" and "unat (tail_idx s) < 64"
    and "SNAKE_NEXT (head_idx s) \<noteq> tail_idx s"
    and "unat (LOWER_BITS (snake_buf s ! unat (tail_idx s))) < 8"
  shows "\<exists>s'. tick_event s rnd = Inr s' \<and> head_idx s' = SNAKE_NEXT (head_idx s) \<and>
           tail_idx s' = SNAKE_NEXT (tail_idx s) \<and> current_score s' = current_score s \<and>
           \<not> got_apple s' \<and> state s' = state s \<and>
           \<not> bit (game_bitmap s' ! unat (LOWER_BITS (snake_buf s ! unat (tail_idx s))))
                 (unat (UPPER_BITS (snake_buf s ! unat (tail_idx s))))"
proof -
  let ?hi = "SNAKE_NEXT (head_idx s)"
  let ?hd = "place_new_head (current_head s) (direction s)"
  let ?t = "snake_buf s ! unat (tail_idx s)"
  have hi: "unat ?hi < 64" by (rule unat_SNAKE_NEXT_less)
  have ne: "unat ?hi \<noteq> unat (tail_idx s)"
    using assms(5) by (simp add: word_unat_eq_iff)
  obtain g1 where g1: "set_bitmap_one (game_bitmap s) ?hd = Inr g1" and lg1: "length g1 = 8"
    using assms(1) place_new_head_row [of "current_head s" "direction s"]
    by (simp add: set_bitmap_one_in_range)
  have g2: "set_bitmap_zero g1 ?t =
      Inr (g1[unat (LOWER_BITS ?t) := g1 ! unat (LOWER_BITS ?t) AND NOT (push_bit (unat (UPPER_BITS ?t)) 1)])"
    using lg1 assms(6) by (simp add: set_bitmap_zero_in_range)
  have cleared: "\<not> bit (g1 ! unat (LOWER_BITS ?t) AND NOT (push_bit (unat (UPPER_BITS ?t)) 1))
                       (unat (UPPER_BITS ?t))"
    by (simp add: bit_simps)
  show ?thesis
    using hi ne assms(2) assms(3) assms(4) assms(6) g1 g2 lg1 cleared
    by (simp add: tick_event_def Let_def bind_fault_def buf_write_def buf_read_def)
qed

section \<open>Apple consumption and the tick\<close>

text \<open>
  In \<open>PLAYING\<close>, in a pass with a pending tick and no direction event, as long as the
  score before the pass is below 63: if the apple cell equals the provisional head, the
  pass returns with the snake length \<open>(head_idx - tail_idx) mod 64 + 1\<close> increased by
  exactly 1, the tail index not advanced, the score increased by exactly 1 and
  \<open>got_apple\<close> cleared; if no apple was consumed, the grid bit of the tail cell is
  cleared, the tail index advances by one modulo 64 and the length is unchanged.  The
  state is one the game keeps: a grid of 8 rows, a buffer of 64 cells not yet full, and a
  tail cell whose row is on the screen.
\<close>

lemma apple_then_tick:
  assumes "state s = PLAYING" and "length (game_bitmap s) = 8"
    and "length (snake_buf s) = 64" and "snake_length s < 64"
  shows "(current_head s = apple s \<and> unat (current_score s) < 63 \<and> 0 \<le> rnd \<longrightarrow>
            (\<exists>s'. GameLogicTask_step s None True rnd = Inr s' \<and>
                  snake_length s' = snake_length s + 1 \<and> tail_idx s' = tail_idx s \<and>
                  unat (current_score s') = unat (current_score s) + 1 \<and> \<not> got_apple s')) \<and>
         (current_head s \<noteq> apple s \<and> \<not> got_apple s \<and> unat (tail_idx s) < 64 \<and>
          unat (LOWER_BITS (snake_buf s ! unat (tail_idx s))) < 8 \<longrightarrow>
            (\<exists>s'. GameLogicTask_step s None True rnd = Inr s' \<and>
                  \<not> bit (game_bitmap s' ! unat (LOWER_BITS (snake_buf s ! unat (tail_idx s))))
                        (unat (UPPER_BITS (snake_buf s ! unat (tail_idx s)))) \<and>
                  unat (tail_idx s') = (unat (tail_idx s) + 1) mod 64 \<and>
                  snake_length s' = snake_length s \<and> current_score s' = current_score s))"
proof (intro conjI impI)
  assume a: "current_head s = apple s \<and> unat (current_score s) < 63 \<and> 0 \<le> rnd"
  define s2 where "s2 = s\<lparr>apple := 0xFF, got_apple := True, current_score := current_score s + 1\<rparr>"
  have sc: "unat (current_score s + 1) = unat (current_score s) + 1"
    using a by (simp add: unat_word_ariths)
  then have chk: "apple_check s = s2"
    using a by (simp add: apple_check_def s2_def Let_def)
  have "\<exists>s'. tick_event s2 rnd = Inr s' \<and> head_idx s' = SNAKE_NEXT (head_idx s2) \<and>
           tail_idx s' = tail_idx s2 \<and> current_score s' = current_score s2 \<and>
           \<not> got_apple s' \<and> state s' = state s2"
    using assms a sc by (intro tick_grows) (simp_all add: s2_def)
  then obtain s' where s': "tick_event s2 rnd = Inr s'" "head_idx s' = SNAKE_NEXT (head_idx s)"
      "tail_idx s' = tail_idx s" "current_score s' = current_score s + 1" "\<not> got_apple s'"
    by (auto simp: s2_def)
  have "0 \<le> (uint (head_idx s) - uint (tail_idx s)) mod 64"
    by simp
  then have len: "snake_length s' = snake_length s + 1"
    using assms(4) unfolding snake_length_def s'(2,3) uint_SNAKE_NEXT ring_next_diff
    by (simp add: mod_pos_pos_trivial)
  show "\<exists>s'. GameLogicTask_step s None True rnd = Inr s' \<and>
                  snake_length s' = snake_length s + 1 \<and> tail_idx s' = tail_idx s \<and>
                  unat (current_score s') = unat (current_score s) + 1 \<and> \<not> got_apple s'"
    using assms(1) chk s' len sc
    by (simp add: GameLogicTask_step_def bind_fault_def PLAYING_def MAIN_MENU_def SETUP_GAME_def)
next
  assume a: "current_head s \<noteq> apple s \<and> \<not> got_apple s \<and> unat (tail_idx s) < 64 \<and>
          unat (LOWER_BITS (snake_buf s ! unat (tail_idx s))) < 8"
  have chk: "apple_check s = s"
    using a by (simp add: apple_check_def)
  have ne: "SNAKE_NEXT (head_idx s) \<noteq> tail_idx s"
  proof
    assume "SNAKE_NEXT (head_idx s) = tail_idx s"
    then have "uint (tail_idx s) = (uint (head_idx s) + 1) mod 64"
      using uint_SNAKE_NEXT [of "head_idx s"] by simp
    then have "snake_length s = 64"
      by (simp add: snake_length_def ring_full)
    with assms(4) show False by simp
  qed
  from tick_moves_tail [of s rnd] assms a ne
  obtain s' where s': "tick_event s rnd = Inr s'" "head_idx s' = SNAKE_NEXT (head_idx s)"
      "tail_idx s' = SNAKE_NEXT (tail_idx s)" "current_score s' = current_score s"
      "\<not> bit (game_bitmap s' ! unat (LOWER_BITS (snake_buf s ! unat (tail_idx s))))
                 (unat (UPPER_BITS (snake_buf s ! unat (tail_idx s))))"
    by blast
  have len: "snake_length s' = snake_length s"
    unfolding snake_length_def s'(2,3) uint_SNAKE_NEXT ring_both_next by (rule refl)
  have tl: "unat (tail_idx s') = (unat (tail_idx s) + 1) mod 64"
    unfolding s'(3) by (rule unat_SNAKE_NEXT)
  show "\<exists>s'. GameLogicTask_step s None True rnd = Inr s' \<and>
                  \<not> bit (game_bitmap s' ! unat (LOWER_BITS (snake_buf s ! unat (tail_idx s))))
                        (unat (UPPER_BITS (snake_buf s ! unat (tail_idx s)))) \<and>
                  unat (tail_idx s') = (unat (tail_idx s) + 1) mod 64 \<and>
                  snake_length s' = snake_length s \<and> current_score s' = current_score s"
    using assms(1) chk s' len tl
    by (simp add: GameLogicTask_step_def bind_fault_def PLAYING_def MAIN_MENU_def SETUP_GAME_def)
qed

lemma apple_then_tick_example:
  "state apple_ahead = PLAYING \<and> length (game_bitmap apple_ahead) = 8 \<and>
   length (snake_buf apple_ahead) = 64 \<and> snake_length apple_ahead < 64 \<and>
   current_head apple_ahead = apple apple_ahead \<and> unat (current_score apple_ahead) < 63 \<and>
   (\<exists>s'. GameLogicTask_step apple_ahead None True 13 = Inr s' \<and>
         snake_length s' = snake_length apple_ahead + 1 \<and> tail_idx s' = tail_idx apple_ahead \<and>
         unat (current_score s') = unat (current_score apple_ahead) + 1 \<and> \<not> got_apple s') \<and>
   state playing_start = PLAYING \<and> length (game_bitmap playing_start) = 8 \<and>
   length (snake_buf playing_start) = 64 \<and> snake_length playing_start < 64 \<and>
   current_head playing_start \<noteq> apple playing_start \<and> \<not> got_apple playing_start \<and>
   unat (tail_idx playing_start) < 64 \<and>
   unat (LOWER_BITS (snake_buf playing_start ! unat (tail_idx playing_start))) < 8 \<and>
   (\<exists>s'. GameLogicTask_step playing_start None True 0 = Inr s' \<and>
         \<not> bit (game_bitmap s' ! 1) 4 \<and> unat (tail_idx s') = 1 \<and>
         snake_length s' = snake_length playing_start \<and>
         current_score s' = current_score playing_start)"
proof -
  have a: "state apple_ahead = PLAYING" "length (game_bitmap apple_ahead) = 8"
    "length (snake_buf apple_ahead) = 64" "snake_length apple_ahead < 64"
    "current_head apple_ahead = apple apple_ahead \<and> unat (current_score apple_ahead) < 63 \<and>
     (0::int) \<le> 13"
    by (simp_all add: apple_ahead_def snake_length_def)
  have p: "state playing_start = PLAYING" "length (game_bitmap playing_start) = 8"
    "length (snake_buf playing_start) = 64" "snake_length playing_start < 64"
    "current_head playing_start \<noteq> apple playing_start \<and> \<not> got_apple playing_start \<and>
     unat (tail_idx playing_start) < 64 \<and>
     unat (LOWER_BITS (snake_buf playing_start ! unat (tail_idx playing_start))) < 8"
    by (simp_all add: playing_start_def snake_length_def LOWER_BITS_def)
  have t: "unat (LOWER_BITS (snake_buf playing_start ! unat (tail_idx playing_start))) = 1"
    "unat (UPPER_BITS (snake_buf playing_start ! unat (tail_idx playing_start))) = 4"
    "(unat (tail_idx playing_start) + 1) mod 64 = 1"
    by (simp_all add: playing_start_def LOWER_BITS_def UPPER_BITS_def)
  from apple_then_tick [OF a(1-4), of 13, THEN conjunct1, rule_format, OF a(5)]
    apple_then_tick [OF p(1-4), of 0, THEN conjunct2, rule_format, OF p(5)] a p
  show ?thesis
    unfolding t by blast
qed

text \<open>
  At score 63 the same pass raises the score to 64, sets \<open>GAME_OVER_TRANS\<close>, and then
  still runs the tick, which calls \<open>place_apple\<close> with score 64: the divisor of
  \<open>rand() % ...\<close> is 0.
\<close>

lemma tick_at_score_63:
  assumes "state s = PLAYING" and "current_head s = apple s" and "current_score s = 63"
    and "length (game_bitmap s) = 8" and "length (snake_buf s) = 64"
  shows "GameLogicTask_step s None True rnd = Inl DivByZero"
proof -
  define s2 where "s2 = s\<lparr>apple := 0xFF, got_apple := True, current_score := 64,
                          state := GAME_OVER_TRANS\<rparr>"
  have chk: "apple_check s = s2"
    using assms(2,3) by (simp add: apple_check_def s2_def Let_def)
  let ?hd = "place_new_head (current_head s) (direction s)"
  have hi: "unat (SNAKE_NEXT (head_idx s)) < 64" by (rule unat_SNAKE_NEXT_less)
  obtain g1 where g1: "set_bitmap_one (game_bitmap s) ?hd = Inr g1"
    using assms(4) place_new_head_row [of "current_head s" "direction s"]
    by (simp add: set_bitmap_one_in_range)
  have pa: "place_apple g1 0xFF 64 rnd = Inl DivByZero"
    by (simp add: place_apple_def c_rem_def SCREEN_HEIGHT_def SCREEN_WIDTH_def)
  have "tick_event s2 rnd = Inl DivByZero"
    using hi assms(5) g1 pa
    by (simp add: tick_event_def Let_def bind_fault_def buf_write_def buf_read_def s2_def)
  then show ?thesis
    using assms(1) chk
    by (simp add: GameLogicTask_step_def bind_fault_def PLAYING_def MAIN_MENU_def SETUP_GAME_def)
qed

text \<open>
  Claim C8 says that in \<open>PLAYING\<close>, with the apple on the provisional head and a tick
  pending, one pass increases the snake length by exactly 1, increments the score by
  exactly 1 and leaves \<open>got_apple\<close> cleared (and that a tick without an apple clears
  the tail bit and advances the tail).  The run \<open>last_apple_inputs\<close> from task entry
  ends in \<open>PLAYING\<close> with score 63, a buffer range of 62 cells and the apple on the
  provisional head; the next pass with a tick does not return a state: it divides by
  zero in \<open>place_apple\<close>.
\<close>

theorem last_apple_divides_by_zero:
  "GameLogicTask_run (task_entry zero_locals) last_apple_inputs = Inr last_apple_state \<and>
   state last_apple_state = PLAYING \<and>
   current_head last_apple_state = apple last_apple_state \<and>
   unat (current_score last_apple_state) = 63 \<and>
   snake_length last_apple_state = 62 \<and>
   GameLogicTask_step last_apple_state None True 0 = Inl DivByZero"
  by code_simp

section \<open>The reversal rule\<close>

text \<open>
  Claim C4.  For every body direction and every received direction among \<open>UP\<close>,
  \<open>DOWN\<close>, \<open>RIGHT\<close>, \<open>LEFT\<close>, the direction event accepts the new direction exactly
  when it is not the opposite of the body direction; an accepted direction becomes the
  committed direction, a rejected one leaves the committed direction unchanged, and
  the body direction is not touched.
\<close>

theorem direction_event_reversal:
  assumes "body_direction s \<in> {UP, DOWN, RIGHT, LEFT}" and "nd \<in> {UP, DOWN, RIGHT, LEFT}"
    and "length (game_bitmap s) = 8" and "length (snake_buf s) = 64"
    and "unat (head_idx s) < 64" and "unat (LOWER_BITS (current_head s)) < 8"
  shows "\<exists>s'. direction_event s nd = Inr s' \<and> body_direction s' = body_direction s \<and>
           valid_turn (body_direction s) nd =
             (\<not> (body_direction s = UP \<and> nd = DOWN \<or> body_direction s = DOWN \<and> nd = UP \<or>
                 body_direction s = LEFT \<and> nd = RIGHT \<or> body_direction s = RIGHT \<and> nd = LEFT)) \<and>
           direction s' = (if valid_turn (body_direction s) nd then nd else direction s)"
proof -
  have v: "valid_turn (body_direction s) nd =
             (\<not> (body_direction s = UP \<and> nd = DOWN \<or> body_direction s = DOWN \<and> nd = UP \<or>
                 body_direction s = LEFT \<and> nd = RIGHT \<or> body_direction s = RIGHT \<and> nd = LEFT))"
    using assms(1,2) by (auto simp: valid_turn_def UP_def DOWN_def LEFT_def RIGHT_def)
  define d where "d = (if valid_turn (body_direction s) nd then nd else direction s)"
  let ?hd = "place_new_head (snake_buf s ! unat (head_idx s)) d"
  obtain g1 where g1: "set_bitmap_zero (game_bitmap s) (current_head s) = Inr g1"
      and lg1: "length g1 = 8"
    using assms(3,6) by (simp add: set_bitmap_zero_in_range)
  obtain g2 where g2: "set_bitmap_one g1 ?hd = Inr g2"
    using lg1 place_new_head_row [of "snake_buf s ! unat (head_idx s)" d]
    by (simp add: set_bitmap_one_in_range)
  have "\<exists>s'. direction_event s nd = Inr s' \<and> body_direction s' = body_direction s \<and>
          direction s' = d"
    using g1 g2 assms(4,5)
    by (cases "valid_turn (body_direction s) nd")
       (simp_all add: direction_event_def Let_def bind_fault_def buf_read_def d_def)
  with v show ?thesis
    unfolding d_def by blast
qed

theorem direction_event_reversal_witness:
  "body_direction playing_start \<in> {UP, DOWN, RIGHT, LEFT} \<and> DOWN \<in> {UP, DOWN, RIGHT, LEFT} \<and>
   length (game_bitmap playing_start) = 8 \<and> length (snake_buf playing_start) = 64 \<and>
   unat (head_idx playing_start) < 64 \<and> unat (LOWER_BITS (current_head playing_start)) < 8 \<and>
   \<not> valid_turn (body_direction playing_start) DOWN \<and>
   (\<exists>s'. direction_event playing_start DOWN = Inr s' \<and> direction s' = UP \<and>
         body_direction s' = UP)"
proof -
  have h: "body_direction playing_start \<in> {UP, DOWN, RIGHT, LEFT}"
    "DOWN \<in> {UP, DOWN, RIGHT, LEFT}"
    "length (game_bitmap playing_start) = 8" "length (snake_buf playing_start) = 64"
    "unat (head_idx playing_start) < 64" "unat (LOWER_BITS (current_head playing_start)) < 8"
    by (simp_all add: playing_start_def LOWER_BITS_def)
  have e: "body_direction playing_start = UP" "direction playing_start = UP"
    by (simp_all add: playing_start_def)
  from direction_event_reversal [OF h] h show ?thesis
    unfolding e by auto
qed

section \<open>The setup pass\<close>

text \<open>
  Claim C6 says that the setup pass occupies exactly the starting cell \<open>(4, 1)\<close>, the
  provisional head one cell up from it and the apple cell \<open>(4, 7)\<close>.  The provisional
  head is computed from \<open>snake_buf[head_idx]\<close>, and \<open>head_idx\<close> has no initialiser.  When
  the stack holds 1 there, the head is computed from the uninitialised \<open>snake_buf[1]\<close>:
  with that cell zero the provisional head is \<open>(0, 1)\<close>, not \<open>(4, 2)\<close>.
\<close>

theorem setup_stale_head_idx:
  "GameLogicTask_step (task_entry stale_locals) None False 0 = Inr stale_start \<and>
   current_head stale_start = TO_COORDINATES 0 1 \<and>
   current_head stale_start \<noteq> TO_COORDINATES 4 2 \<and>
   bit (game_bitmap stale_start ! 1) 0 \<and> \<not> bit (game_bitmap stale_start ! 2) 4"
  by code_simp

text \<open>
  When \<open>head_idx\<close> happens to be 0 at task entry, the setup pass yields the state the
  claim describes, and five ticks later the committed head is \<open>(4, 6)\<close>, the provisional
  head \<open>(4, 7)\<close> and the score still 2.
\<close>

lemma setup_head_idx_zero:
  assumes "length (snake_buf j) = 64" and "head_idx j = 0"
  shows "\<exists>s'. GameLogicTask_step (task_entry j) None False rnd = Inr s' \<and>
           game_bitmap s' = [0, 0x10, 0x10, 0, 0, 0, 0, 0x10] \<and>
           snake_buf s' ! 0 = TO_COORDINATES 4 1 \<and>
           current_head s' = TO_COORDINATES 4 2 \<and> apple s' = TO_COORDINATES 4 7 \<and>
           direction s' = UP \<and> body_direction s' = UP \<and> current_score s' = 2 \<and>
           state s' = PLAYING"
proof -
  have c: "clear_rows (replicate 8 0) 0 SCREEN_WIDTH = Inr [0, 0, 0, 0, 0, 0, 0, 0]"
    by code_simp
  have g1: "set_bitmap_one [0, 0, 0, 0, 0, 0, 0, 0] (TO_COORDINATES 4 1) =
              Inr [0, 0x10, 0, 0, 0, 0, 0, 0]"
    by code_simp
  have h: "place_new_head (TO_COORDINATES 4 1) UP = TO_COORDINATES 4 2"
    by code_simp
  have g2: "set_bitmap_one [0, 0x10, 0, 0, 0, 0, 0, 0] (TO_COORDINATES 4 2) =
              Inr [0, 0x10, 0x10, 0, 0, 0, 0, 0]"
    by code_simp
  have g3: "set_bitmap_one [0, 0x10, 0x10, 0, 0, 0, 0, 0] (TO_COORDINATES 4 7) =
              Inr [0, 0x10, 0x10, 0, 0, 0, 0, 0x10]"
    by code_simp
  have st: "SETUP_GAME \<noteq> MAIN_MENU"
    by (simp add: SETUP_GAME_def MAIN_MENU_def)
  from assms(1) have ne: "snake_buf j \<noteq> []"
    by auto
  show ?thesis
    using assms st ne
    by (simp add: GameLogicTask_step_def task_entry_def setup_game_def bind_fault_def
        buf_write_def buf_read_def c g1 h g2 g3)
qed

lemma setup_zero_locals:
  "GameLogicTask_step (task_entry zero_locals) None False 0 = Inr playing_start"
  by code_simp

lemma five_ticks_after_setup:
  "GameLogicTask_run playing_start five_ticks = Inr apple_ahead \<and>
   snake_buf apple_ahead ! unat (head_idx apple_ahead) = TO_COORDINATES 4 6 \<and>
   current_head apple_ahead = TO_COORDINATES 4 7 \<and> current_score apple_ahead = 2"
  by code_simp

section \<open>Grid and model after a turn on the apple\<close>

text \<open>
  Claim C5 says that in every state reachable from the setup a grid bit is set exactly
  for the cells of the snake buffer's live range, the provisional head and the apple.
  The direction event clears the bit of the old provisional head without looking at
  the apple: after the setup pass, five ticks and a \<open>LEFT\<close> event the apple is still at
  \<open>(4, 7)\<close> and the game is still in \<open>PLAYING\<close>, but the bit of \<open>(4, 7)\<close> is clear.
\<close>

theorem apple_bit_lost:
  "GameLogicTask_run (task_entry zero_locals) lost_apple_inputs = Inr lost_apple_state \<and>
   state lost_apple_state = PLAYING \<and> apple lost_apple_state = TO_COORDINATES 4 7 \<and>
   \<not> bit (game_bitmap lost_apple_state ! 7) 4"
  by code_simp

section \<open>Collision with the snake itself\<close>

text \<open>
  Claim C3 says that a provisional head on a cell of the committed body (and not on the
  apple) makes the next tick leave \<open>PLAYING\<close> for \<open>GAME_OVER_TRANS\<close>.  After the run
  \<open>collision_inputs\<close> the live range of the buffer is the indices 10 to 14 and the
  provisional head equals the cell at index 11; the next pass with a tick commits the
  head and stays in \<open>PLAYING\<close>.
\<close>

theorem self_collision_ignored:
  "GameLogicTask_run (task_entry zero_locals) collision_inputs = Inr collision_state \<and>
   state collision_state = PLAYING \<and>
   tail_idx collision_state = 10 \<and> head_idx collision_state = 14 \<and>
   current_head collision_state = snake_buf collision_state ! 11 \<and>
   current_head collision_state \<noteq> apple collision_state \<and>
   GameLogicTask_step collision_state None True 0 = Inr collision_next \<and>
   state collision_next = PLAYING \<and> state collision_next \<noteq> GAME_OVER_TRANS"
  by code_simp

end
